theory Spec2Isabelle
  imports Main
begin

section \<open>Package clicommand: the send-offline-command cli command\<close>

text \<open>
  Go strings are byte sequences; they are modelled as \<open>string\<close> (a list of \<open>char\<close>,
  one per byte). A Go error value is modelled by its message text, \<open>nil\<close> by \<open>None\<close>.
\<close>

subsection \<open>The command document and its validation\<close>

text \<open>
  \<open>contracts.DocumentContent\<close> is declared outside the two source files; only the three
  fields that \<open>validateContent\<close> reads are kept. \<open>RuntimeConfig\<close> is a Go map, given here
  by its entries (so \<open>len\<close> is the number of entries), \<open>MainSteps\<close> is a slice. The
  plugin configurations themselves are never inspected and stay type parameters.
\<close>

record ('cfg, 'step) DocumentContent =
  SchemaVersion :: string
  RuntimeConfig :: "(string \<times> 'cfg) list"
  MainSteps :: "'step list"

definition validateContent :: "('cfg, 'step) DocumentContent \<Rightarrow> string option" where
  "validateContent content =
     (if SchemaVersion content = ''1.2'' then
        (if length (RuntimeConfig content) = 0
         then Some ''runtimeConfig cannot be empty''
         else None)
      else if SchemaVersion content = ''2.0'' then
        (if length (MainSteps content) = 0
         then Some ''mainSteps cannot be empty''
         else None)
      else Some (''unsupported schema version '' @ SchemaVersion content))"

subsection \<open>Input validation\<close>

text \<open>
  The helpers of package \<open>cliutil\<close> are not among the source files. They are taken as
  parameters: how a parameter name is written as a flag, and the two format tests on
  the content value.
\<close>

record cliutil =
  FormatFlag :: "string \<Rightarrow> string"
  ValidJson :: "string \<Rightarrow> bool"
  ValidUrl :: "string \<Rightarrow> bool"

definition sendCommand :: string where
  "sendCommand = ''send-offline-command''"

definition sendCommandContent :: string where
  "sendCommandContent = ''content''"

text \<open>What \<open>fmt\<close> prints for a slice of strings under \<open>%v\<close>: the elements, separated by
  one blank, in square brackets.\<close>

fun spaced :: "string list \<Rightarrow> string" where
  "spaced [] = []"
| "spaced [x] = x"
| "spaced (x # y # ys) = x @ '' '' @ spaced (y # ys)"

definition formatSlice :: "string list \<Rightarrow> string" where
  "formatSlice xs = ''['' @ spaced xs @ '']''"

text \<open>
  The parameters are a Go map from names to value lists. The map is given by its
  entries in the order in which \<open>range\<close> visits them in the run at hand (a Go map holds
  every key once, and the order of iteration is not fixed); a key is looked up with
  \<open>map_of\<close>. The loop over the keys appends one message for every key other than
  \<open>content\<close>.
\<close>

primrec unknownParameters :: "cliutil \<Rightarrow> (string \<times> string list) list \<Rightarrow> string list" where
  "unknownParameters cli [] = []"
| "unknownParameters cli (kv # rest) =
     (if fst kv \<noteq> sendCommandContent
      then [''unknown parameter '' @ FormatFlag cli (fst kv)]
      else []) @ unknownParameters cli rest"

definition validateSendCommandInput ::
    "cliutil \<Rightarrow> string list \<Rightarrow> (string \<times> string list) list \<Rightarrow> string list" where
  "validateSendCommandInput cli subcommands parameters =
     (if subcommands \<noteq> [] then
        [sendCommand @ '' does not support subcommand '' @ formatSlice subcommands, '''']
      else
        (case map_of parameters sendCommandContent of
           None \<Rightarrow> [FormatFlag cli sendCommandContent @ '' is required'']
         | Some vals \<Rightarrow>
             if length vals \<noteq> 1 then
               [''expected 1 value for parameter '' @ FormatFlag cli sendCommandContent]
             else
               (let val = vals ! 0 in
                if \<not> ValidJson cli val \<and> \<not> ValidUrl cli val then
                  [FormatFlag cli sendCommandContent @ '' value must be valid json or a URL'']
                else []))
        @ unknownParameters cli parameters)"

text \<open>
  The violations an input shows, written from the specification's list: subcommands are
  present, the content parameter is missing, it has a number of values other than one,
  its value is neither JSON nor a URL, a parameter is unknown. Each comes with the
  message that reports it.
\<close>

definition violations ::
    "cliutil \<Rightarrow> string list \<Rightarrow> (string \<times> string list) list \<Rightarrow> string list" where
  "violations cli subcommands parameters =
     (if subcommands \<noteq> []
      then [sendCommand @ '' does not support subcommand '' @ formatSlice subcommands]
      else [])
     @ (if sendCommandContent \<notin> fst ` set parameters
        then [FormatFlag cli sendCommandContent @ '' is required'']
        else [])
     @ concat (map (\<lambda>vals.
          if length vals \<noteq> 1
          then [''expected 1 value for parameter '' @ FormatFlag cli sendCommandContent]
          else if \<not> ValidJson cli (hd vals) \<and> \<not> ValidUrl cli (hd vals)
          then [FormatFlag cli sendCommandContent @ '' value must be valid json or a URL'']
          else [])
        (case map_of parameters sendCommandContent of None \<Rightarrow> [] | Some vals \<Rightarrow> [vals]))
     @ map (\<lambda>k. ''unknown parameter '' @ FormatFlag cli k)
         (filter (\<lambda>k. k \<noteq> sendCommandContent) (map fst parameters))"

text \<open>
  An instance of the helpers for evaluating the validation at concrete inputs: a flag
  is the name after two dashes, the only JSON text is \<open>{}\<close> and a URL starts with
  \<open>https://\<close>. It stands in for package \<open>cliutil\<close> only there.
\<close>

definition dashFlag :: "string \<Rightarrow> string" where
  "dashFlag name = ''--'' @ name"

definition sampleCli :: cliutil where
  "sampleCli = \<lparr>FormatFlag = dashFlag, ValidJson = (\<lambda>s. s = ''{}''),
                 ValidUrl = (\<lambda>s. take 8 s = ''https://'')\<rparr>"

subsection \<open>Package strings\<close>

text \<open>
  The three functions of Go's \<open>strings\<close> package that the polling code calls, on byte
  strings: \<open>HasPrefix s p\<close> compares the first \<open>len p\<close> bytes of \<open>s\<close> with \<open>p\<close>,
  \<open>Contains s sub\<close> tells whether \<open>sub\<close> occurs in \<open>s\<close>, and \<open>LastIndex s sub\<close> is the
  byte index of the last occurrence of \<open>sub\<close> in \<open>s\<close>, or \<open>-1\<close> when there is none.
\<close>

definition HasPrefix :: "string \<Rightarrow> string \<Rightarrow> bool" where
  "HasPrefix s p \<longleftrightarrow> length s \<ge> length p \<and> take (length p) s = p"

fun Contains :: "string \<Rightarrow> string \<Rightarrow> bool" where
  "Contains [] sub = (sub = [])"
| "Contains (c # cs) sub = (HasPrefix (c # cs) sub \<or> Contains cs sub)"

fun LastIndex :: "string \<Rightarrow> string \<Rightarrow> int" where
  "LastIndex [] sub = (if sub = [] then 0 else - 1)"
| "LastIndex (c # cs) sub =
     (let r = LastIndex cs sub in
      if r \<ge> 0 then r + 1
      else if HasPrefix (c # cs) sub then 0
      else - 1)"

subsection \<open>The mailbox and the wait for the consumer\<close>

text \<open>
  The submitter sees the mailbox folders only through calls to the host: listing a
  folder, sleeping, deleting a file. A consumer in another process changes the folders
  in between, so the answer to a call is not a function of the submitter's own actions
  on some file system it owns. The host is therefore given by what it answers to a
  call after a history of calls: the most general deterministic host. The history
  (a list of events, oldest first) is threaded through the functions and returned.

  \<open>fileutil.GetFileNames\<close> returns a pair, the names and an error; the caller drops
  the error and reads the names. \<open>fileutil.DeleteFile\<close> returns an error, which the
  caller drops as well. The three folder names of package \<open>appconfig\<close> and
  \<open>filepath.Join\<close> are parameters of the host.
\<close>

datatype event =
    ListFiles string
  | Sleep nat
  | Delete string

record filepath =
  Join :: "string list \<Rightarrow> string"

record host = filepath +
  LocalCommandRoot :: string
  LocalCommandRootSubmitted :: string
  LocalCommandRootInvalid :: string
  GetFileNames :: "event list \<Rightarrow> string \<Rightarrow> string list \<times> string option"
  DeleteFile :: "event list \<Rightarrow> string \<Rightarrow> string option"

text \<open>The loop of \<open>isDocumentProcessed\<close> over the file names: the first name that starts
  with the document name and contains a dot decides.\<close>

fun scanFiles :: "string \<Rightarrow> string list \<Rightarrow> bool \<times> string" where
  "scanFiles documentName [] = (False, '''')"
| "scanFiles documentName (file # files) =
     (if HasPrefix file documentName \<and> Contains file ''.''
      then (True, drop (nat (LastIndex file ''.'' + 1)) file)
      else scanFiles documentName files)"

definition isDocumentProcessed ::
    "host \<Rightarrow> string \<Rightarrow> string \<Rightarrow> event list \<Rightarrow> (bool \<times> string) \<times> event list" where
  "isDocumentProcessed h documentName folder tr =
     (let (files, _) = GetFileNames h tr folder
      in (scanFiles documentName files, tr @ [ListFiles folder]))"

text \<open>The \<open>for\<close> loop of \<open>waitForSubmitStatus\<close>, from counter \<open>i\<close> on: \<open>Some\<close> of the
  returned text when an iteration returns, \<open>None\<close> when the loop runs out.\<close>

function pollSubmitStatus ::
    "host \<Rightarrow> string \<Rightarrow> nat \<Rightarrow> event list \<Rightarrow> string option \<times> event list" where
  "pollSubmitStatus h documentName i tr =
     (if i < 10 then
        (let ((processed, commandId), tr1) =
               isDocumentProcessed h documentName (LocalCommandRootSubmitted h) tr
         in if processed
            then (Some (''successfully submitted with command id: '' @ commandId), tr1)
            else
              (let ((processed, _), tr2) =
                     isDocumentProcessed h documentName (LocalCommandRootInvalid h) tr1
               in if processed
                  then (Some ''failed to submit document: document was invalid'', tr2)
                  else pollSubmitStatus h documentName (i + 1) (tr2 @ [Sleep 500])))
      else (None, tr))"
  by pat_completeness auto
termination
  by (relation "measure (\<lambda>(h, d, i, tr). 10 - i)") auto

definition waitForSubmitStatus :: "host \<Rightarrow> string \<Rightarrow> event list \<Rightarrow> string \<times> event list" where
  "waitForSubmitStatus h documentName tr =
     (case pollSubmitStatus h documentName 0 tr of
        (Some result, tr') \<Rightarrow> (result, tr')
      | (None, tr') \<Rightarrow>
          (let documentPath = Join h [LocalCommandRoot h, documentName];
               _ = DeleteFile h tr' documentPath;
               tr0 = tr' @ [Delete documentPath];
               ((processed, commandId), tr1) =
                 isDocumentProcessed h documentName (LocalCommandRootSubmitted h) tr0
           in if processed
              then (''successfully submitted with command id: '' @ commandId, tr1)
              else
                (let ((processed, _), tr2) =
                       isDocumentProcessed h documentName (LocalCommandRootInvalid h) tr1
                 in if processed
                    then (''failed to submit document: document was invalid'', tr2)
                    else (''failed to submit document: timed out'', tr2))))"

declare pollSubmitStatus.simps [simp del]

text \<open>
  Two notions for stating what the wait does. \<open>rounds h n\<close> is the history that \<open>n\<close>
  iterations without a match leave behind: each lists the submitted folder, lists the
  invalid folder and sleeps 500 ms. \<open>quiet h d tr\<close> says that an iteration started
  after history \<open>tr\<close> finds no entry for document \<open>d\<close>, neither in the submitted folder
  nor, listed next, in the invalid folder.
\<close>

definition rounds :: "host \<Rightarrow> nat \<Rightarrow> event list" where
  "rounds h n =
     concat (replicate n
       [ListFiles (LocalCommandRootSubmitted h), ListFiles (LocalCommandRootInvalid h), Sleep 500])"

definition quiet :: "host \<Rightarrow> string \<Rightarrow> event list \<Rightarrow> bool" where
  "quiet h d tr \<longleftrightarrow>
     \<not> fst (scanFiles d (fst (GetFileNames h tr (LocalCommandRootSubmitted h)))) \<and>
     \<not> fst (scanFiles d
            (fst (GetFileNames h (tr @ [ListFiles (LocalCommandRootSubmitted h)])
                    (LocalCommandRootInvalid h))))"

text \<open>The test that the loop of \<open>isDocumentProcessed\<close> applies to a file name.\<close>

definition matches :: "string \<Rightarrow> string \<Rightarrow> bool" where
  "matches d f \<longleftrightarrow> HasPrefix f d \<and> Contains f ''.''"

subsection \<open>Hosts for evaluating the wait at concrete inputs\<close>

text \<open>
  \<open>slashed\<close> is what \<open>filepath.Join\<close> computes on a Unix host for elements that are
  non-empty and clean: the elements with a slash between them. Three hosts use it, with
  the folders \<open>pending\<close>, \<open>submitted\<close> and \<open>invalid\<close>: one whose consumer has accepted
  document \<open>doc1\<close> from the start, one whose consumer accepts it only once the pending
  file has been deleted (and whose listings fail before), and one on which every
  listing fails.
\<close>

fun slashed :: "string list \<Rightarrow> string" where
  "slashed [] = []"
| "slashed [x] = x"
| "slashed (x # y # ys) = x @ ''/'' @ slashed (y # ys)"

definition lateConsumer :: "event list \<Rightarrow> string \<Rightarrow> string list \<times> string option" where
  "lateConsumer tr folder =
     (if folder = ''submitted'' \<and> Delete ''pending/doc1'' \<in> set tr
      then ([''readme'', ''doc1'', ''doc1.abc.cmd-7'', ''doc1.zzz''], None)
      else ([], Some ''cannot read folder''))"

definition lateHost :: host where
  "lateHost = \<lparr>Join = slashed, LocalCommandRoot = ''pending'',
     LocalCommandRootSubmitted = ''submitted'', LocalCommandRootInvalid = ''invalid'',
     GetFileNames = lateConsumer, DeleteFile = (\<lambda>tr path. Some ''permission denied'')\<rparr>"

definition promptConsumer :: "event list \<Rightarrow> string \<Rightarrow> string list \<times> string option" where
  "promptConsumer tr folder =
     (if folder = ''submitted''
      then ([''readme'', ''doc1'', ''doc1.abc.cmd-7'', ''doc1.zzz''], None)
      else ([], None))"

definition promptHost :: host where
  "promptHost = \<lparr>Join = slashed, LocalCommandRoot = ''pending'',
     LocalCommandRootSubmitted = ''submitted'', LocalCommandRootInvalid = ''invalid'',
     GetFileNames = promptConsumer, DeleteFile = (\<lambda>tr path. None)\<rparr>"

definition brokenHost :: host where
  "brokenHost = \<lparr>Join = slashed, LocalCommandRoot = ''pending'',
     LocalCommandRootSubmitted = ''submitted'', LocalCommandRootInvalid = ''invalid'',
     GetFileNames = (\<lambda>tr folder. ([], Some ''cannot read folder'')),
     DeleteFile = (\<lambda>tr path. None)\<rparr>"

section \<open>Package updateutil: updater utilities\<close>

subsection \<open>Constants and paths\<close>

definition DefaultOutputFolder :: string where
  "DefaultOutputFolder = ''output''"

definition DefaultStandOut :: string where
  "DefaultStandOut = ''stdout''"

definition DefaultStandErr :: string where
  "DefaultStandErr = ''stderr''"

definition PlatformRedHat :: string where
  "PlatformRedHat = ''red hat''"

definition PlatformUbuntu :: string where
  "PlatformUbuntu = ''ubuntu''"

definition PlatformCentOS :: string where
  "PlatformCentOS = ''centos''"

definition PlatformWindows :: string where
  "PlatformWindows = ''windows''"

definition DefaultUpdateExecutionTimeoutInSeconds :: nat where
  "DefaultUpdateExecutionTimeoutInSeconds = 30"

definition UpdateOutputDirectory :: "'a filepath_scheme \<Rightarrow> string \<Rightarrow> string" where
  "UpdateOutputDirectory fp updateRoot = Join fp [updateRoot, DefaultOutputFolder]"

definition UpdateStandOutPath :: "'a filepath_scheme \<Rightarrow> string \<Rightarrow> string \<Rightarrow> string" where
  "UpdateStandOutPath fp updateRoot fileName =
     (let fileName = (if fileName = [] then DefaultStandOut else fileName)
      in Join fp [UpdateOutputDirectory fp updateRoot, fileName])"

definition UpdateStandErrPath :: "'a filepath_scheme \<Rightarrow> string \<Rightarrow> string \<Rightarrow> string" where
  "UpdateStandErrPath fp updateRoot fileName =
     (let fileName = (if fileName = [] then DefaultStandErr else fileName)
      in Join fp [UpdateOutputDirectory fp updateRoot, fileName])"

subsection \<open>The instance context and systemd\<close>

record InstanceContext =
  Region :: string
  Platform :: string
  PlatformVersion :: string
  InstallerName :: string
  Arch :: string
  CompressFormat :: string

text \<open>
  \<open>getMinimumVersionForSystemD\<close> fills the package-level map once (\<open>sync.Once\<close>) and
  returns it on every call; nothing else writes to the map, so every call sees these
  three entries.
\<close>

definition getMinimumVersionForSystemD :: "(string \<times> string) list" where
  "getMinimumVersionForSystemD =
     [(PlatformCentOS, ''7''), (PlatformRedHat, ''7''), (PlatformUbuntu, ''15'')]"

text \<open>
  \<open>VersionCompare\<close> lives in another file of the package and is a parameter: it returns
  an error or the sign of the comparison. The caller reads the number only when there
  is no error, so Go's pair is given as a sum. The result of \<open>IsPlatformUsingSystemD\<close>,
  a pair of a boolean and an error, is a sum as well: with an error the boolean is
  false.
\<close>

definition IsPlatformUsingSystemD ::
    "(string \<Rightarrow> string \<Rightarrow> string + int) \<Rightarrow> InstanceContext \<Rightarrow> string + bool" where
  "IsPlatformUsingSystemD VersionCompare i =
     (case map_of getMinimumVersionForSystemD (Platform i) of
        Some val \<Rightarrow>
          (case VersionCompare (PlatformVersion i) val of
             Inl err \<Rightarrow> Inl err
           | Inr compareResult \<Rightarrow> if compareResult \<ge> 0 then Inr True else Inr False)
      | None \<Rightarrow> Inr False)"

text \<open>A comparison that knows three pairs of versions, for evaluating at concrete
  inputs.\<close>

definition knownVersions :: "string \<Rightarrow> string \<Rightarrow> string + int" where
  "knownVersions a b =
     (if (a, b) = (''16.04'', ''15'') then Inr 1
      else if (a, b) = (''14.04'', ''15'') then Inr (- 1)
      else if (a, b) = (''7'', ''7'') then Inr 0
      else Inl ''Invalid version string'')"

subsection \<open>Splitting the command line\<close>

text \<open>
  \<open>strings.Fields\<close> splits a string around runs of white space, as \<open>unicode.IsSpace\<close>
  defines it, and drops empty fields. The white space runes are listed by their UTF-8
  encodings: tab, line feed, vertical tab, form feed, carriage return, space, U+0085,
  U+00A0, U+1680, U+2000 to U+200A, U+2028, U+2029, U+202F, U+205F and U+3000. No
  encoding starts with a continuation byte and none is a prefix of another, so looking
  for one of them at a byte position finds what Go's decoder finds there.
\<close>

definition whiteSpace :: "string list" where
  "whiteSpace =
     [[CHR 0x09], [CHR 0x0A], [CHR 0x0B], [CHR 0x0C], [CHR 0x0D], [CHR 0x20],
      [CHR 0xC2, CHR 0x85], [CHR 0xC2, CHR 0xA0],
      [CHR 0xE1, CHR 0x9A, CHR 0x80],
      [CHR 0xE2, CHR 0x80, CHR 0x80], [CHR 0xE2, CHR 0x80, CHR 0x81],
      [CHR 0xE2, CHR 0x80, CHR 0x82], [CHR 0xE2, CHR 0x80, CHR 0x83],
      [CHR 0xE2, CHR 0x80, CHR 0x84], [CHR 0xE2, CHR 0x80, CHR 0x85],
      [CHR 0xE2, CHR 0x80, CHR 0x86], [CHR 0xE2, CHR 0x80, CHR 0x87],
      [CHR 0xE2, CHR 0x80, CHR 0x88], [CHR 0xE2, CHR 0x80, CHR 0x89],
      [CHR 0xE2, CHR 0x80, CHR 0x8A],
      [CHR 0xE2, CHR 0x80, CHR 0xA8], [CHR 0xE2, CHR 0x80, CHR 0xA9],
      [CHR 0xE2, CHR 0x80, CHR 0xAF], [CHR 0xE2, CHR 0x81, CHR 0x9F],
      [CHR 0xE3, CHR 0x80, CHR 0x80]]"

text \<open>The number of bytes of the white space rune at the head of a string, 0 when the
  string does not start with one.\<close>

definition spaceWidth :: "string \<Rightarrow> nat" where
  "spaceWidth s = (case find (HasPrefix s) whiteSpace of None \<Rightarrow> 0 | Some w \<Rightarrow> length w)"

text \<open>The scan of \<open>Fields\<close>: \<open>cur\<close> is the field read so far.\<close>

function fieldsFrom :: "string \<Rightarrow> string \<Rightarrow> string list" where
  "fieldsFrom cur s =
     (if s = [] then (if cur = [] then [] else [cur])
      else if spaceWidth s > 0
      then (if cur = [] then [] else [cur]) @ fieldsFrom [] (drop (spaceWidth s) s)
      else fieldsFrom (cur @ [hd s]) (tl s))"
  by pat_completeness auto
termination
  by (relation "measure (\<lambda>(cur, s). length s)") auto

declare fieldsFrom.simps [simp del]

definition Fields :: "string \<Rightarrow> string list" where
  "Fields s = fieldsFrom [] s"

text \<open>A string without a non-white-space character: it is empty, or it starts with a
  white space rune and the rest is again such a string.\<close>

function blank :: "string \<Rightarrow> bool" where
  "blank s =
     (if s = [] then True
      else if spaceWidth s > 0 then blank (drop (spaceWidth s) s)
      else False)"
  by pat_completeness auto
termination
  by (relation "measure length") auto

declare blank.simps [simp del]

subsection \<open>Running a command\<close>

text \<open>
  An error of this package is an error of the operating system (opaque, with its text),
  an \<open>exec.ExitError\<close> (with the exit status when its \<open>Sys()\<close> is a
  \<open>syscall.WaitStatus\<close>, and its text), or the error that \<open>ExeCommand\<close> builds with
  \<open>fmt.Errorf\<close> from an exit code and the text of the error it replaces.
\<close>

datatype error =
    OSError string
  | ExitError "int option" string
  | CommandFailure int string

fun showNat :: "nat \<Rightarrow> string" where
  "showNat n =
     (if n < 10 then [char_of (48 + n)]
      else showNat (n div 10) @ [char_of (48 + n mod 10)])"

declare showNat.simps [simp del]

definition showInt :: "int \<Rightarrow> string" where
  "showInt i = (if i < 0 then ''-'' @ showNat (nat (- i)) else showNat (nat i))"

fun Error :: "error \<Rightarrow> string" where
  "Error (OSError text) = text"
| "Error (ExitError status text) = text"
| "Error (CommandFailure exitCode text) =
     ''The execution of command returned Exit Status: '' @ showInt exitCode
       @ '' '' @ [CHR 0x0A] @ '' '' @ text"

text \<open>An \<open>exec.Cmd\<close>: the fields that \<open>ExeCommand\<close> sets. Open files are named by their
  descriptors.\<close>

record command =
  Path :: string
  Args :: "string list"
  Dir :: string
  Stdout :: "nat option"
  Stderr :: "nat option"

definition execCommand :: "string \<Rightarrow> string list \<Rightarrow> command" where
  "execCommand name arg = \<lparr>Path = name, Args = name # arg, Dir = [], Stdout = None, Stderr = None\<rparr>"

text \<open>
  What the operating system and the platform-specific files of the package answer is a
  parameter: whether a directory can be made, whether a file can be opened (given the
  files open at that moment), whether the process starts, what \<open>Wait\<close> returns, and
  what \<open>timer.Stop()\<close> returns (false when the timer has fired). The goroutine
  \<open>killProcessOnTimeout\<close> acts on the child process only; what it does shows in the
  program through the last two answers. \<open>setPlatformSpecificCommand\<close>,
  \<open>prepareProcess\<close> and the constant \<open>pluginutil.CommandStoppedPreemptivelyExitCode\<close>
  are defined outside the source files and are parameters as well.
\<close>

record system = filepath +
  mkDirAll :: "string \<Rightarrow> error option"
  openFile :: "(nat \<times> string) list \<Rightarrow> string \<Rightarrow> error option"
  setPlatformSpecificCommand :: "string list \<Rightarrow> string list"
  prepareProcess :: "command \<Rightarrow> command"
  cmdStart :: "command \<Rightarrow> error option"
  cmdWait :: "command \<Rightarrow> error option"
  timerStop :: bool
  CommandStoppedPreemptivelyExitCode :: int

text \<open>The state the calls act on: the open files (descriptor and path), the next free
  descriptor, and the processes started.\<close>

record world =
  openFiles :: "(nat \<times> string) list"
  nextFd :: nat
  started :: "command list"

definition os_OpenFile :: "system \<Rightarrow> string \<Rightarrow> world \<Rightarrow> (error + nat) \<times> world" where
  "os_OpenFile sys name w =
     (case openFile sys (openFiles w) name of
        Some err \<Rightarrow> (Inl err, w)
      | None \<Rightarrow>
          (Inr (nextFd w),
           w\<lparr>openFiles := openFiles w @ [(nextFd w, name)], nextFd := Suc (nextFd w)\<rparr>))"

text \<open>\<open>Close\<close> on a \<open>nil\<close> file returns an error and does nothing; the callers drop
  what \<open>Close\<close> returns.\<close>

fun Close :: "nat option \<Rightarrow> world \<Rightarrow> world" where
  "Close None w = w"
| "Close (Some fd) w = w\<lparr>openFiles := filter (\<lambda>(h, name). h \<noteq> fd) (openFiles w)\<rparr>"

text \<open>\<open>setExeOutErr\<close> returns the two writers and an error; a writer that was not opened
  is \<open>nil\<close>, here \<open>None\<close>.\<close>

definition setExeOutErr ::
    "system \<Rightarrow> string \<Rightarrow> string \<Rightarrow> string \<Rightarrow> world
       \<Rightarrow> (nat option \<times> nat option \<times> error option) \<times> world" where
  "setExeOutErr sys updaterRoot stdOut stdErr w =
     (case mkDirAll sys (UpdateOutputDirectory sys updaterRoot) of
        Some err \<Rightarrow> ((None, None, Some err), w)
      | None \<Rightarrow>
          (let stdOut = UpdateStandOutPath sys updaterRoot stdOut;
               stdErr = UpdateStandOutPath sys updaterRoot stdErr
           in case os_OpenFile sys stdOut w of
                (Inl err, w1) \<Rightarrow> ((None, None, Some err), w1)
              | (Inr stdoutWriter, w1) \<Rightarrow>
                  (case os_OpenFile sys stdErr w1 of
                     (Inl err, w2) \<Rightarrow> ((Some stdoutWriter, None, Some err), w2)
                   | (Inr stderrWriter, w2) \<Rightarrow>
                       ((Some stdoutWriter, Some stderrWriter, None), w2))))"

text \<open>A call either returns or panics: indexing an empty slice at 0 is a run-time
  panic.\<close>

datatype 'a outcome = Panic | Return 'a

text \<open>The part of the supervised branch after the process has started: the wait, the
  timer and the error that is returned.\<close>

definition waitForExit :: "system \<Rightarrow> command \<Rightarrow> error option" where
  "waitForExit sys command =
     (let err = cmdWait sys command;
          timedOut = \<not> timerStop sys
      in case err of
           None \<Rightarrow> None
         | Some (ExitError (Some status) text) \<Rightarrow>
             (let exitCode =
                    (if status = - 1 \<and> timedOut
                     then CommandStoppedPreemptivelyExitCode sys
                     else status)
              in Some (CommandFailure exitCode (Error (ExitError (Some status) text))))
         | Some e \<Rightarrow> Some e)"

text \<open>
  \<open>ExeCommand\<close>. In the detached branch the process is started and the call returns.
  In the supervised branch the two \<open>defer\<close>red closes are registered once
  \<open>setExeOutErr\<close> has returned without an error, so they run on every return after
  that point, the one for stderr first; a return before that point runs none.
\<close>

definition ExeCommand ::
    "system \<Rightarrow> string \<Rightarrow> string \<Rightarrow> string \<Rightarrow> string \<Rightarrow> string \<Rightarrow> bool \<Rightarrow> world
       \<Rightarrow> error option outcome \<times> world" where
  "ExeCommand sys cmd workingDir updaterRoot stdOut stdErr isAsync w =
     (let parts = Fields cmd in
      if isAsync then
        (case parts of
           [] \<Rightarrow> (Panic, w)
         | p # ps \<Rightarrow>
             (let command = prepareProcess sys ((execCommand p ps)\<lparr>Dir := workingDir\<rparr>)
              in case cmdStart sys command of
                   Some err \<Rightarrow> (Return (Some err), w)
                 | None \<Rightarrow> (Return None, w\<lparr>started := started w @ [command]\<rparr>)))
      else
        (case setPlatformSpecificCommand sys parts of
           [] \<Rightarrow> (Panic, w)
         | t # ts \<Rightarrow>
             (case setExeOutErr sys updaterRoot stdOut stdErr w of
                ((stdoutWriter, stderrWriter, Some exeErr), w1) \<Rightarrow> (Return (Some exeErr), w1)
              | ((stdoutWriter, stderrWriter, None), w1) \<Rightarrow>
                  (let command = (execCommand t ts)
                         \<lparr>Dir := workingDir, Stdout := stdoutWriter, Stderr := stderrWriter\<rparr>;
                       closeAll = (\<lambda>w. Close stdoutWriter (Close stderrWriter w))
                   in case cmdStart sys command of
                        Some err \<Rightarrow> (Return (Some err), closeAll w1)
                      | None \<Rightarrow>
                          (Return (waitForExit sys command),
                           closeAll (w1\<lparr>started := started w1 @ [command]\<rparr>))))))"

subsection \<open>Systems for evaluating ExeCommand at concrete inputs\<close>

text \<open>
  \<open>plainSystem\<close> is a Unix-like host on which every call succeeds: paths are joined
  with slashes, the platform-specific functions leave their argument as it is, the
  child exits with status 0 before the timer fires, and the reserved exit code is 137.
  \<open>killedSystem\<close> differs in the child: it is killed after the timeout, so \<open>Wait\<close>
  returns an exit error with status -1 and \<open>timer.Stop()\<close> returns false.
  \<open>signalledSystem\<close> has the same exit error, the timer not having fired. On
  \<open>blockedSystem\<close> the path \<open>/opt/updater/output/errors\<close> is a directory and cannot be
  opened for writing. An initial world has no file open; descriptors start at 3.
\<close>

definition plainSystem :: system where
  "plainSystem =
     \<lparr>Join = slashed, mkDirAll = (\<lambda>path. None), openFile = (\<lambda>files name. None),
      setPlatformSpecificCommand = (\<lambda>parts. parts), prepareProcess = (\<lambda>command. command),
      cmdStart = (\<lambda>command. None), cmdWait = (\<lambda>command. None), timerStop = True,
      CommandStoppedPreemptivelyExitCode = 137\<rparr>"

definition killedSystem :: system where
  "killedSystem =
     plainSystem\<lparr>cmdWait := (\<lambda>command. Some (ExitError (Some (- 1)) ''signal: killed'')),
                 timerStop := False\<rparr>"

definition signalledSystem :: system where
  "signalledSystem =
     plainSystem\<lparr>cmdWait := (\<lambda>command. Some (ExitError (Some (- 1)) ''signal: killed''))\<rparr>"

definition blockedSystem :: system where
  "blockedSystem =
     plainSystem\<lparr>openFile := (\<lambda>files name.
        if name = ''/opt/updater/output/errors''
        then Some (OSError ''open /opt/updater/output/errors: is a directory'')
        else None)\<rparr>"

definition initialWorld :: world where
  "initialWorld = \<lparr>openFiles = [], nextFd = 3, started = []\<rparr>"

section \<open>Verified properties\<close>

subsection \<open>validateContent\<close>

text \<open>
  C6. For every parsed command document, \<open>validateContent\<close> succeeds (returns no error)
  exactly when the schema version is "1.2" and runtimeConfig is non-empty, or the schema
  version is "2.0" and mainSteps is non-empty. An empty runtimeConfig under "1.2" fails
  with "runtimeConfig cannot be empty", empty mainSteps under "2.0" fails with
  "mainSteps cannot be empty", and every other schema version fails with a message that
  names the unsupported version.
\<close>

theorem validateContent_spec:
  "(validateContent c = None \<longleftrightarrow>
      (SchemaVersion c = ''1.2'' \<and> RuntimeConfig c \<noteq> []) \<or>
      (SchemaVersion c = ''2.0'' \<and> MainSteps c \<noteq> []))
   \<and> (SchemaVersion c = ''1.2'' \<and> RuntimeConfig c = [] \<longrightarrow>
        validateContent c = Some ''runtimeConfig cannot be empty'')
   \<and> (SchemaVersion c = ''2.0'' \<and> MainSteps c = [] \<longrightarrow>
        validateContent c = Some ''mainSteps cannot be empty'')
   \<and> (SchemaVersion c \<noteq> ''1.2'' \<and> SchemaVersion c \<noteq> ''2.0'' \<longrightarrow>
        validateContent c = Some (''unsupported schema version '' @ SchemaVersion c))"
  by (simp add: validateContent_def)

theorem validateContent_spec_witness:
  "validateContent \<lparr>SchemaVersion = ''1.2'', RuntimeConfig = [(''aws:runShellScript'', ())],
                     MainSteps = ([] :: unit list)\<rparr> = None
   \<and> validateContent \<lparr>SchemaVersion = ''1.2'', RuntimeConfig = ([] :: (string \<times> unit) list),
                       MainSteps = [()]\<rparr> = Some ''runtimeConfig cannot be empty''
   \<and> validateContent \<lparr>SchemaVersion = ''2.0'', RuntimeConfig = [(''aws:runShellScript'', ())],
                       MainSteps = ([] :: unit list)\<rparr> = Some ''mainSteps cannot be empty''
   \<and> validateContent \<lparr>SchemaVersion = ''2.1'', RuntimeConfig = [(''aws:runShellScript'', ())],
                       MainSteps = [()]\<rparr> = Some ''unsupported schema version 2.1''"
  using
    validateContent_spec [of "\<lparr>SchemaVersion = ''1.2'', RuntimeConfig = [(''aws:runShellScript'', ())],
                     MainSteps = ([] :: unit list)\<rparr>"]
    validateContent_spec [of "\<lparr>SchemaVersion = ''1.2'', RuntimeConfig = ([] :: (string \<times> unit) list),
                       MainSteps = [()]\<rparr>"]
    validateContent_spec [of "\<lparr>SchemaVersion = ''2.0'', RuntimeConfig = [(''aws:runShellScript'', ())],
                       MainSteps = ([] :: unit list)\<rparr>"]
    validateContent_spec [of "\<lparr>SchemaVersion = ''2.1'', RuntimeConfig = [(''aws:runShellScript'', ())],
                       MainSteps = [()]\<rparr>"]
  by simp

subsection \<open>validateSendCommandInput\<close>

lemma set_unknownParameters:
  "set (unknownParameters cli ps) =
     (\<lambda>k. ''unknown parameter '' @ FormatFlag cli k) ` {k \<in> fst ` set ps. k \<noteq> sendCommandContent}"
  by (induction ps) auto

text \<open>
  C1 as the specification states it: whatever the input, every violation it shows is
  among the returned messages. This fails: with a subcommand present the function
  returns at once, and a missing content parameter is not reported.
\<close>

theorem validateSendCommandInput_partial:
  "\<not> set (violations sampleCli [''status''] [])
       \<subseteq> set (validateSendCommandInput sampleCli [''status''] [])"
  by (simp add: violations_def validateSendCommandInput_def sampleCli_def dashFlag_def
      sendCommand_def sendCommandContent_def formatSlice_def)

text \<open>
  C1, amended. When no subcommand is given, every violation the input shows (missing
  content parameter, wrong number of values, value neither JSON nor a URL, unknown
  parameters) is among the returned messages, and nothing else is returned. When
  subcommands are given, the result is the message about the subcommands followed by an
  empty line, and the rest of the validation is skipped.
\<close>

theorem validateSendCommandInput_complete:
  "(subcommands = [] \<longrightarrow>
      set (validateSendCommandInput cli subcommands parameters)
        = set (violations cli subcommands parameters))
   \<and> (subcommands \<noteq> [] \<longrightarrow>
      validateSendCommandInput cli subcommands parameters
        = [sendCommand @ '' does not support subcommand '' @ formatSlice subcommands, ''''])"
proof (intro conjI impI)
  assume none: "subcommands = []"
  show "set (validateSendCommandInput cli subcommands parameters)
          = set (violations cli subcommands parameters)"
  proof (cases "map_of parameters sendCommandContent")
    case None
    then have "sendCommandContent \<notin> fst ` set parameters"
      by (simp add: map_of_eq_None_iff)
    with None none show ?thesis
      by (auto simp: validateSendCommandInput_def violations_def set_unknownParameters)
  next
    case (Some vals)
    then have "sendCommandContent \<in> fst ` set parameters"
      by (metis map_of_eq_None_iff option.distinct(1))
    moreover have "length vals = 1 \<Longrightarrow> vals ! 0 = hd vals"
      by (cases vals) auto
    ultimately show ?thesis using Some none
      by (auto simp: validateSendCommandInput_def violations_def set_unknownParameters Let_def)
  qed
next
  assume "subcommands \<noteq> []"
  then show "validateSendCommandInput cli subcommands parameters
        = [sendCommand @ '' does not support subcommand '' @ formatSlice subcommands, '''']"
    by (simp add: validateSendCommandInput_def)
qed

theorem validateSendCommandInput_complete_witness:
  "set (validateSendCommandInput sampleCli [] [(''content'', [''x'']), (''name'', [])])
     = set (violations sampleCli [] [(''content'', [''x'']), (''name'', [])])
   \<and> validateSendCommandInput sampleCli [] [(''content'', [''x'']), (''name'', [])]
     = [''--content value must be valid json or a URL'', ''unknown parameter --name'']
   \<and> validateSendCommandInput sampleCli [''status''] []
     = [''send-offline-command does not support subcommand [status]'', '''']"
  using validateSendCommandInput_complete [of "[]" sampleCli "[(''content'', [''x'']), (''name'', [])]"]
    validateSendCommandInput_complete [of "[''status'']" sampleCli "[]"]
  by (simp add: validateSendCommandInput_def sampleCli_def dashFlag_def
      sendCommand_def sendCommandContent_def formatSlice_def)

subsection \<open>Strings\<close>

lemma HasPrefix_iff: "HasPrefix s p \<longleftrightarrow> (\<exists>rest. s = p @ rest)"
  unfolding HasPrefix_def
  by (metis append_eq_conv_conj append_take_drop_id length_append le_add1)

lemma Contains_single: "Contains s [c] \<longleftrightarrow> c \<in> set s"
  by (induction s) (auto simp: HasPrefix_def)

lemma LastIndex_single_none: "c \<notin> set s \<Longrightarrow> LastIndex s [c] = - 1"
  by (induction s) (auto simp: HasPrefix_def Let_def)

lemma LastIndex_single_ge: "LastIndex s [c] \<ge> - 1"
  by (induction s) (auto simp: Let_def)

lemma LastIndex_single:
  "c \<notin> set suf \<Longrightarrow> LastIndex (pre @ c # suf) [c] = int (length pre)"
  by (induction pre) (auto simp: HasPrefix_def Let_def LastIndex_single_none)

lemma after_last:
  assumes "c \<in> set s"
  shows "\<exists>pre. s = pre @ [c] @ drop (nat (LastIndex s [c] + 1)) s
           \<and> c \<notin> set (drop (nat (LastIndex s [c] + 1)) s)"
proof -
  from assms obtain pre suf where s: "s = pre @ c # suf" and suf: "c \<notin> set suf"
    by (meson split_list_last)
  have "LastIndex s [c] = int (length pre)"
    unfolding s by (rule LastIndex_single [OF suf])
  then have "nat (LastIndex s [c] + 1) = Suc (length pre)"
    by simp
  then have "drop (nat (LastIndex s [c] + 1)) s = suf"
    by (simp add: s)
  with s suf show ?thesis by auto
qed

subsection \<open>isDocumentProcessed and waitForSubmitStatus\<close>

lemma scanFiles_fst: "fst (scanFiles d files) \<longleftrightarrow> (\<exists>f \<in> set files. matches d f)"
  by (induction files) (auto simp: matches_def HasPrefix_iff Contains_single)

lemma scanFiles_first:
  assumes "fst (scanFiles d files)"
  shows "\<exists>before file after. files = before @ file # after
           \<and> (\<forall>g \<in> set before. \<not> matches d g) \<and> matches d file
           \<and> snd (scanFiles d files) = drop (nat (LastIndex file ''.'' + 1)) file"
  using assms
proof (induction files)
  case Nil
  then show ?case by simp
next
  case (Cons f files)
  show ?case
  proof (cases "matches d f")
    case True
    then have "snd (scanFiles d (f # files)) = drop (nat (LastIndex f ''.'' + 1)) f"
      by (simp add: matches_def HasPrefix_iff Contains_single)
    with True show ?thesis by (intro exI [of _ "[]"] exI [of _ f] exI [of _ files]) simp
  next
    case False
    then have eq: "scanFiles d (f # files) = scanFiles d files"
      by (auto simp: matches_def HasPrefix_iff Contains_single)
    with Cons obtain before f0 after where
      "files = before @ f0 # after" "\<forall>g \<in> set before. \<not> matches d g" "matches d f0"
      "snd (scanFiles d files) = drop (nat (LastIndex f0 ''.'' + 1)) f0"
      by auto
    with False eq show ?thesis
      by (intro exI [of _ "f # before"] exI [of _ f0] exI [of _ after]) simp
  qed
qed

lemma isDocumentProcessed_eq:
  "isDocumentProcessed h d folder tr =
     (scanFiles d (fst (GetFileNames h tr folder)), tr @ [ListFiles folder])"
  by (simp add: isDocumentProcessed_def split: prod.splits)

lemma poll_quiet_step:
  assumes "i < 10" "quiet h d tr"
  shows "pollSubmitStatus h d i tr =
     pollSubmitStatus h d (i + 1)
       (tr @ [ListFiles (LocalCommandRootSubmitted h), ListFiles (LocalCommandRootInvalid h), Sleep 500])"
  using assms
  by (subst pollSubmitStatus.simps)
     (simp add: quiet_def isDocumentProcessed_eq case_prod_beta)

lemma concat_replicate_Suc: "concat (replicate (Suc n) xs) = concat (replicate n xs) @ xs"
  by (induction n) auto

lemma rounds_Suc:
  "rounds h (Suc n) =
     rounds h n @ [ListFiles (LocalCommandRootSubmitted h), ListFiles (LocalCommandRootInvalid h), Sleep 500]"
  unfolding rounds_def by (rule concat_replicate_Suc)

lemma poll_quiet_rounds:
  "\<forall>j<n. quiet h d (tr @ rounds h j) \<Longrightarrow> n \<le> 10 \<Longrightarrow>
     pollSubmitStatus h d 0 tr = pollSubmitStatus h d n (tr @ rounds h n)"
proof (induction n)
  case 0
  then show ?case by (simp add: rounds_def)
next
  case (Suc n)
  then have "pollSubmitStatus h d 0 tr = pollSubmitStatus h d n (tr @ rounds h n)" by simp
  also have "\<dots> = pollSubmitStatus h d (n + 1)
      ((tr @ rounds h n) @ [ListFiles (LocalCommandRootSubmitted h), ListFiles (LocalCommandRootInvalid h), Sleep 500])"
    using Suc.prems by (intro poll_quiet_step) auto
  finally show ?case by (simp add: rounds_Suc)
qed

lemma poll_exhausted: "pollSubmitStatus h d 10 tr = (None, tr)"
  by (subst pollSubmitStatus.simps) simp

lemma poll_submitted:
  assumes "i < 10" "fst (scanFiles d (fst (GetFileNames h tr (LocalCommandRootSubmitted h))))"
  shows "pollSubmitStatus h d i tr =
     (Some (''successfully submitted with command id: '' @
              snd (scanFiles d (fst (GetFileNames h tr (LocalCommandRootSubmitted h))))),
      tr @ [ListFiles (LocalCommandRootSubmitted h)])"
  using assms
  by (subst pollSubmitStatus.simps)
     (simp add: isDocumentProcessed_eq case_prod_beta)

lemma set_rounds:
  "set (rounds h n) \<subseteq>
     {ListFiles (LocalCommandRootSubmitted h), ListFiles (LocalCommandRootInvalid h), Sleep 500}"
  by (induction n) (auto simp: rounds_Suc, simp add: rounds_def)

lemma wait_after_quiet:
  assumes "\<forall>j<10. quiet h d (tr @ rounds h j)"
  shows "waitForSubmitStatus h d tr =
     (let tr0 = tr @ rounds h 10 @ [Delete (Join h [LocalCommandRoot h, d])];
          submitted = scanFiles d (fst (GetFileNames h tr0 (LocalCommandRootSubmitted h)));
          invalid = scanFiles d
            (fst (GetFileNames h (tr0 @ [ListFiles (LocalCommandRootSubmitted h)])
                    (LocalCommandRootInvalid h)))
      in if fst submitted then
           (''successfully submitted with command id: '' @ snd submitted,
            tr0 @ [ListFiles (LocalCommandRootSubmitted h)])
         else if fst invalid then
           (''failed to submit document: document was invalid'',
            tr0 @ [ListFiles (LocalCommandRootSubmitted h), ListFiles (LocalCommandRootInvalid h)])
         else
           (''failed to submit document: timed out'',
            tr0 @ [ListFiles (LocalCommandRootSubmitted h), ListFiles (LocalCommandRootInvalid h)]))"
proof -
  have "pollSubmitStatus h d 0 tr = (None, tr @ rounds h 10)"
    using poll_quiet_rounds [of 10 h d tr] assms by (simp add: poll_exhausted)
  then show ?thesis
    by (simp add: waitForSubmitStatus_def isDocumentProcessed_eq case_prod_beta Let_def)
qed

text \<open>
  C4. Let the ten iterations of the loop, 500 ms apart, find no entry for the document,
  neither in the submitted nor in the invalid folder. Then \<open>waitForSubmitStatus\<close> deletes
  the pending file of the document, lists the submitted folder and then the invalid
  folder once more, and answers from that last check: success with the consumer's id
  when the submitted folder now holds a match, "document was invalid" when the invalid
  folder does, and "timed out" only when neither does. The history shows the order:
  ten rounds of listing, listing and sleeping, the deletion, the final listings. What
  the deletion returns plays no part: with any other \<open>DeleteFile\<close> the result and the
  history are the same.
\<close>

theorem waitForSubmitStatus_final_check:
  assumes "\<forall>j<10. quiet h d (tr @ rounds h j)"
  shows "waitForSubmitStatus h d tr =
     (let tr0 = tr @ rounds h 10 @ [Delete (Join h [LocalCommandRoot h, d])];
          submitted = scanFiles d (fst (GetFileNames h tr0 (LocalCommandRootSubmitted h)));
          invalid = scanFiles d
            (fst (GetFileNames h (tr0 @ [ListFiles (LocalCommandRootSubmitted h)])
                    (LocalCommandRootInvalid h)))
      in if fst submitted then
           (''successfully submitted with command id: '' @ snd submitted,
            tr0 @ [ListFiles (LocalCommandRootSubmitted h)])
         else if fst invalid then
           (''failed to submit document: document was invalid'',
            tr0 @ [ListFiles (LocalCommandRootSubmitted h), ListFiles (LocalCommandRootInvalid h)])
         else
           (''failed to submit document: timed out'',
            tr0 @ [ListFiles (LocalCommandRootSubmitted h), ListFiles (LocalCommandRootInvalid h)]))
     \<and> (\<forall>del. waitForSubmitStatus (h\<lparr>DeleteFile := del\<rparr>) d tr = waitForSubmitStatus h d tr)"
proof (intro conjI allI)
  show "waitForSubmitStatus h d tr =
     (let tr0 = tr @ rounds h 10 @ [Delete (Join h [LocalCommandRoot h, d])];
          submitted = scanFiles d (fst (GetFileNames h tr0 (LocalCommandRootSubmitted h)));
          invalid = scanFiles d
            (fst (GetFileNames h (tr0 @ [ListFiles (LocalCommandRootSubmitted h)])
                    (LocalCommandRootInvalid h)))
      in if fst submitted then
           (''successfully submitted with command id: '' @ snd submitted,
            tr0 @ [ListFiles (LocalCommandRootSubmitted h)])
         else if fst invalid then
           (''failed to submit document: document was invalid'',
            tr0 @ [ListFiles (LocalCommandRootSubmitted h), ListFiles (LocalCommandRootInvalid h)])
         else
           (''failed to submit document: timed out'',
            tr0 @ [ListFiles (LocalCommandRootSubmitted h), ListFiles (LocalCommandRootInvalid h)]))"
    by (rule wait_after_quiet [OF assms])
next
  fix del
  have "\<forall>j<10. quiet (h\<lparr>DeleteFile := del\<rparr>) d (tr @ rounds (h\<lparr>DeleteFile := del\<rparr>) j)"
    using assms by (simp add: quiet_def rounds_def)
  from wait_after_quiet [OF this] wait_after_quiet [OF assms]
  show "waitForSubmitStatus (h\<lparr>DeleteFile := del\<rparr>) d tr = waitForSubmitStatus h d tr"
    by (simp add: rounds_def Let_def)
qed

lemma lateHost_quiet: "quiet lateHost ''doc1'' (rounds lateHost j)"
proof -
  have "Delete ''pending/doc1'' \<notin> set (rounds lateHost j)"
    using set_rounds [of lateHost j] by auto
  then show ?thesis
    by (simp add: quiet_def lateHost_def lateConsumer_def)
qed

theorem waitForSubmitStatus_final_check_witness:
  "fst (waitForSubmitStatus lateHost ''doc1'' []) = ''successfully submitted with command id: cmd-7''"
  using waitForSubmitStatus_final_check [of lateHost "''doc1''" "[]"] lateHost_quiet
  by (simp add: Let_def lateHost_def lateConsumer_def HasPrefix_def)

lemma wait_submitted_round:
  assumes "k < 10" "\<forall>j<k. quiet h d (tr @ rounds h j)"
    and "fst (scanFiles d (fst (GetFileNames h (tr @ rounds h k) (LocalCommandRootSubmitted h))))"
  shows "fst (waitForSubmitStatus h d tr) =
     ''successfully submitted with command id: '' @
       snd (scanFiles d (fst (GetFileNames h (tr @ rounds h k) (LocalCommandRootSubmitted h))))"
proof -
  have "pollSubmitStatus h d 0 tr = pollSubmitStatus h d k (tr @ rounds h k)"
    using poll_quiet_rounds [of k h d tr] assms by simp
  then show ?thesis
    using poll_submitted [OF assms(1) assms(3)]
    by (simp add: waitForSubmitStatus_def)
qed

text \<open>
  C5. Let the listing of a folder return the names \<open>files\<close>. \<open>isDocumentProcessed\<close>
  reports a match exactly when some name starts with the document name and contains a
  dot. On a match, the id it returns is what follows the last dot of the first such
  name in the listing: that name is some text, a dot, and the id, and the id holds no
  dot. Without a match the id is empty. When the match is found in the submitted folder
  in one of the ten iterations, all earlier iterations having found nothing, the
  result of the wait is the success message followed by exactly that id.
\<close>

theorem isDocumentProcessed_consumerId:
  assumes "GetFileNames h tr folder = (files, err)"
  shows "(fst (fst (isDocumentProcessed h d folder tr)) \<longleftrightarrow>
            (\<exists>f \<in> set files. (\<exists>rest. f = d @ rest) \<and> CHR ''.'' \<in> set f))
     \<and> (fst (fst (isDocumentProcessed h d folder tr)) \<longrightarrow>
          (\<exists>before f after pre.
              files = before @ f # after
            \<and> (\<forall>g \<in> set before. \<not> ((\<exists>rest. g = d @ rest) \<and> CHR ''.'' \<in> set g))
            \<and> (\<exists>rest. f = d @ rest)
            \<and> f = pre @ ''.'' @ snd (fst (isDocumentProcessed h d folder tr))
            \<and> CHR ''.'' \<notin> set (snd (fst (isDocumentProcessed h d folder tr)))))
     \<and> (\<not> fst (fst (isDocumentProcessed h d folder tr)) \<longrightarrow>
          snd (fst (isDocumentProcessed h d folder tr)) = [])
     \<and> (fst (fst (isDocumentProcessed h d folder tr))
          \<and> folder = LocalCommandRootSubmitted h
          \<and> k < 10 \<and> tr = tr0 @ rounds h k \<and> (\<forall>j<k. quiet h d (tr0 @ rounds h j)) \<longrightarrow>
          fst (waitForSubmitStatus h d tr0) =
            ''successfully submitted with command id: '' @
               snd (fst (isDocumentProcessed h d folder tr)))"
proof -
  have eq: "fst (isDocumentProcessed h d folder tr) = scanFiles d files"
    by (simp add: isDocumentProcessed_eq assms)
  have 1: "fst (scanFiles d files) \<longleftrightarrow>
      (\<exists>f \<in> set files. (\<exists>rest. f = d @ rest) \<and> CHR ''.'' \<in> set f)"
    by (simp add: scanFiles_fst matches_def HasPrefix_iff Contains_single)
  have 2: "\<exists>before f after pre.
              files = before @ f # after
            \<and> (\<forall>g \<in> set before. \<not> ((\<exists>rest. g = d @ rest) \<and> CHR ''.'' \<in> set g))
            \<and> (\<exists>rest. f = d @ rest)
            \<and> f = pre @ ''.'' @ snd (scanFiles d files)
            \<and> CHR ''.'' \<notin> set (snd (scanFiles d files))"
    if "fst (scanFiles d files)"
  proof -
    from scanFiles_first [OF that] obtain before f after where
      f: "files = before @ f # after" "\<forall>g \<in> set before. \<not> matches d g" "matches d f"
        "snd (scanFiles d files) = drop (nat (LastIndex f ''.'' + 1)) f"
      by blast
    from f(3) have "CHR ''.'' \<in> set f" by (simp add: matches_def HasPrefix_iff Contains_single)
    from after_last [OF this] f(4) obtain pre where
      "f = pre @ ''.'' @ snd (scanFiles d files)" "CHR ''.'' \<notin> set (snd (scanFiles d files))"
      by auto
    with f show ?thesis unfolding matches_def HasPrefix_iff Contains_single by blast
  qed
  have 3: "snd (scanFiles d files) = []" if "\<not> fst (scanFiles d files)"
    using that by (induction files) (auto split: if_splits)
  have 4: "fst (waitForSubmitStatus h d tr0) =
            ''successfully submitted with command id: '' @ snd (scanFiles d files)"
    if "fst (scanFiles d files)" "folder = LocalCommandRootSubmitted h" "k < 10"
      "tr = tr0 @ rounds h k" "\<forall>j<k. quiet h d (tr0 @ rounds h j)"
    using wait_submitted_round [of k h d tr0] that assms by simp
  show ?thesis
    unfolding eq using 1 2 3 4 by blast
qed

theorem isDocumentProcessed_consumerId_witness:
  "isDocumentProcessed promptHost ''doc1'' ''submitted'' [] =
      ((True, ''cmd-7''), [ListFiles ''submitted''])
   \<and> fst (waitForSubmitStatus promptHost ''doc1'' []) =
      ''successfully submitted with command id: cmd-7''"
proof -
  have l: "GetFileNames promptHost [] ''submitted'' =
      ([''readme'', ''doc1'', ''doc1.abc.cmd-7'', ''doc1.zzz''], None)"
    by (simp add: promptHost_def promptConsumer_def)
  have p: "isDocumentProcessed promptHost ''doc1'' ''submitted'' [] =
      ((True, ''cmd-7''), [ListFiles ''submitted''])"
    by (simp add: isDocumentProcessed_eq l HasPrefix_def)
  show ?thesis
    using isDocumentProcessed_consumerId [OF l, of "''doc1''" 0 "[]"] p
    by (simp add: rounds_def promptHost_def)
qed

text \<open>
  C10. A listing that fails (it returns an error and no names) counts as no match:
  \<open>isDocumentProcessed\<close> drops the error and returns false with an empty id. When every
  listing fails, \<open>waitForSubmitStatus\<close> runs through all ten iterations, deletes the
  pending file, checks once more and returns the timed-out text; no error reaches the
  caller.
\<close>

theorem listing_failure_is_no_match:
  "(GetFileNames h tr folder = ([], Some e) \<longrightarrow>
      isDocumentProcessed h d folder tr = ((False, []), tr @ [ListFiles folder]))
   \<and> ((\<forall>tr' folder'. \<exists>e'. GetFileNames h tr' folder' = ([], Some e')) \<longrightarrow>
      waitForSubmitStatus h d tr =
        (''failed to submit document: timed out'',
         tr @ rounds h 10 @
           [Delete (Join h [LocalCommandRoot h, d]),
            ListFiles (LocalCommandRootSubmitted h), ListFiles (LocalCommandRootInvalid h)]))"
proof (intro conjI impI)
  assume "GetFileNames h tr folder = ([], Some e)"
  then show "isDocumentProcessed h d folder tr = ((False, []), tr @ [ListFiles folder])"
    by (simp add: isDocumentProcessed_eq)
next
  assume fails: "\<forall>tr' folder'. \<exists>e'. GetFileNames h tr' folder' = ([], Some e')"
  then have nil: "fst (GetFileNames h tr' folder') = []" for tr' folder'
    by (metis fst_conv)
  then have "\<forall>j<10. quiet h d (tr @ rounds h j)"
    by (simp add: quiet_def)
  from wait_after_quiet [OF this]
  show "waitForSubmitStatus h d tr =
        (''failed to submit document: timed out'',
         tr @ rounds h 10 @
           [Delete (Join h [LocalCommandRoot h, d]),
            ListFiles (LocalCommandRootSubmitted h), ListFiles (LocalCommandRootInvalid h)])"
    by (simp add: nil Let_def)
qed

theorem listing_failure_is_no_match_witness:
  "isDocumentProcessed brokenHost ''doc1'' ''submitted'' [] = ((False, []), [ListFiles ''submitted''])
   \<and> fst (waitForSubmitStatus brokenHost ''doc1'' []) = ''failed to submit document: timed out''
   \<and> Delete ''pending/doc1'' \<in> set (snd (waitForSubmitStatus brokenHost ''doc1'' []))"
  using listing_failure_is_no_match [of brokenHost "[]" "''submitted''" "''cannot read folder''" "''doc1''"]
  by (simp add: brokenHost_def rounds_def)

subsection \<open>Output paths\<close>

lemma UpdateStandOutPath_default:
  "UpdateStandOutPath fp root [] = Join fp [Join fp [root, ''output''], ''stdout'']"
  "UpdateStandErrPath fp root [] = Join fp [Join fp [root, ''output''], ''stderr'']"
  "name \<noteq> [] \<Longrightarrow> UpdateStandOutPath fp root name = Join fp [Join fp [root, ''output''], name]"
  "name \<noteq> [] \<Longrightarrow> UpdateStandErrPath fp root name = Join fp [Join fp [root, ''output''], name]"
  by (simp_all add: UpdateStandOutPath_def UpdateStandErrPath_def UpdateOutputDirectory_def
      DefaultOutputFolder_def DefaultStandOut_def DefaultStandErr_def)

lemma setExeOutErr_paths:
  assumes "setExeOutErr sys root stdOut stdErr w = ((Some out, Some err, None), w1)"
  shows "openFiles w1 = openFiles w @
           [(out, UpdateStandOutPath sys root stdOut), (err, UpdateStandOutPath sys root stdErr)]"
  using assms
  by (auto simp: setExeOutErr_def os_OpenFile_def Let_def split: option.splits)

lemma setExeOutErr_cases:
  "(\<exists>e. setExeOutErr sys root stdOut stdErr w = ((None, None, Some e), w))
   \<or> (\<exists>e. setExeOutErr sys root stdOut stdErr w =
          ((Some (nextFd w), None, Some e),
           w\<lparr>openFiles := openFiles w @ [(nextFd w, UpdateStandOutPath sys root stdOut)],
             nextFd := Suc (nextFd w)\<rparr>))
   \<or> setExeOutErr sys root stdOut stdErr w =
          ((Some (nextFd w), Some (Suc (nextFd w)), None),
           w\<lparr>openFiles := openFiles w @
                 [(nextFd w, UpdateStandOutPath sys root stdOut),
                  (Suc (nextFd w), UpdateStandOutPath sys root stdErr)],
             nextFd := Suc (Suc (nextFd w))\<rparr>)"
  by (auto simp: setExeOutErr_def os_OpenFile_def Let_def split: option.splits)

text \<open>
  C2. The specification says that the stdout and stderr files lie in the \<open>output\<close> folder of the updater
  root, and a name left empty defaults to \<open>stdout\<close> for the stdout file and to \<open>stderr\<close>
  for the stderr file. The code differs: \<open>setExeOutErr\<close> computes both paths with \<open>UpdateStandOutPath\<close>:
  with root \<open>/opt/updater\<close> and both names empty, the two files it opens are both
  \<open>/opt/updater/output/stdout\<close>, while \<open>UpdateStandErrPath\<close>, which it does not call,
  gives \<open>/opt/updater/output/stderr\<close>.
\<close>

theorem setExeOutErr_stderr_default:
  "map snd (openFiles (snd (setExeOutErr plainSystem ''/opt/updater'' [] [] initialWorld))) =
      [''/opt/updater/output/stdout'', ''/opt/updater/output/stdout'']
   \<and> UpdateStandErrPath plainSystem ''/opt/updater'' [] = ''/opt/updater/output/stderr''"
  by (simp add: setExeOutErr_def os_OpenFile_def plainSystem_def initialWorld_def
      UpdateStandOutPath_def UpdateStandErrPath_def UpdateOutputDirectory_def
      DefaultOutputFolder_def DefaultStandOut_def DefaultStandErr_def)

subsection \<open>IsPlatformUsingSystemD\<close>

text \<open>
  C8. \<open>IsPlatformUsingSystemD\<close> returns true exactly when the platform of the context
  is a key of the table and \<open>VersionCompare\<close> of the platform version against the
  table's threshold succeeds with a result of at least zero. The table is centos to
  "7", red hat to "7", ubuntu to "15". For every platform that is not a key of the
  table, Windows among them, it returns false without an error.
\<close>

theorem IsPlatformUsingSystemD_spec:
  "(IsPlatformUsingSystemD VersionCompare i = Inr True \<longleftrightarrow>
      (\<exists>threshold r. map_of getMinimumVersionForSystemD (Platform i) = Some threshold
         \<and> VersionCompare (PlatformVersion i) threshold = Inr r \<and> r \<ge> 0))
   \<and> getMinimumVersionForSystemD = [(''centos'', ''7''), (''red hat'', ''7''), (''ubuntu'', ''15'')]
   \<and> (map_of getMinimumVersionForSystemD (Platform i) = None \<longleftrightarrow>
        Platform i \<notin> {''centos'', ''red hat'', ''ubuntu''})
   \<and> (Platform i \<notin> {''centos'', ''red hat'', ''ubuntu''} \<longrightarrow>
        IsPlatformUsingSystemD VersionCompare i = Inr False)
   \<and> IsPlatformUsingSystemD VersionCompare (i\<lparr>Platform := PlatformWindows\<rparr>) = Inr False"
proof -
  have table: "getMinimumVersionForSystemD = [(''centos'', ''7''), (''red hat'', ''7''), (''ubuntu'', ''15'')]"
    by (simp add: getMinimumVersionForSystemD_def PlatformCentOS_def PlatformRedHat_def
        PlatformUbuntu_def)
  have none: "map_of getMinimumVersionForSystemD p = None \<longleftrightarrow>
        p \<notin> {''centos'', ''red hat'', ''ubuntu''}" for p
    unfolding table by simp
  have 1: "IsPlatformUsingSystemD VersionCompare i = Inr True \<longleftrightarrow>
      (\<exists>threshold r. map_of getMinimumVersionForSystemD (Platform i) = Some threshold
         \<and> VersionCompare (PlatformVersion i) threshold = Inr r \<and> r \<ge> 0)"
    by (auto simp: IsPlatformUsingSystemD_def split: option.splits sum.splits)
  have 2: "IsPlatformUsingSystemD VersionCompare j = Inr False"
    if "map_of getMinimumVersionForSystemD (Platform j) = None" for j
    using that by (simp add: IsPlatformUsingSystemD_def)
  have 3: "IsPlatformUsingSystemD VersionCompare (i\<lparr>Platform := PlatformWindows\<rparr>) = Inr False"
    by (rule 2) (simp add: none PlatformWindows_def)
  show ?thesis
    using table none [of "Platform i"] 1 2 [of i] 3 by blast
qed

theorem IsPlatformUsingSystemD_spec_witness:
  "IsPlatformUsingSystemD knownVersions
      \<lparr>Region = ''us-east-1'', Platform = ''ubuntu'', PlatformVersion = ''16.04'',
       InstallerName = ''ubuntu'', Arch = ''amd64'', CompressFormat = ''tar.gz''\<rparr> = Inr True
   \<and> IsPlatformUsingSystemD knownVersions
      \<lparr>Region = ''us-east-1'', Platform = ''ubuntu'', PlatformVersion = ''14.04'',
       InstallerName = ''ubuntu'', Arch = ''amd64'', CompressFormat = ''tar.gz''\<rparr> = Inr False
   \<and> IsPlatformUsingSystemD knownVersions
      \<lparr>Region = ''us-east-1'', Platform = ''windows'', PlatformVersion = ''10'',
       InstallerName = ''windows'', Arch = ''amd64'', CompressFormat = ''zip''\<rparr> = Inr False"
proof -
  have t: "map_of getMinimumVersionForSystemD ''ubuntu'' = Some ''15''"
    by (simp add: getMinimumVersionForSystemD_def PlatformCentOS_def PlatformRedHat_def
        PlatformUbuntu_def)
  have v: "knownVersions ''16.04'' ''15'' = Inr 1"
    by (simp add: knownVersions_def)
  have a: "IsPlatformUsingSystemD knownVersions
      \<lparr>Region = ''us-east-1'', Platform = ''ubuntu'', PlatformVersion = ''16.04'',
       InstallerName = ''ubuntu'', Arch = ''amd64'', CompressFormat = ''tar.gz''\<rparr> = Inr True"
    using IsPlatformUsingSystemD_spec [of knownVersions
      "\<lparr>Region = ''us-east-1'', Platform = ''ubuntu'', PlatformVersion = ''16.04'',
       InstallerName = ''ubuntu'', Arch = ''amd64'', CompressFormat = ''tar.gz''\<rparr>"] t v
    by auto
  have b: "IsPlatformUsingSystemD knownVersions
      \<lparr>Region = ''us-east-1'', Platform = ''ubuntu'', PlatformVersion = ''14.04'',
       InstallerName = ''ubuntu'', Arch = ''amd64'', CompressFormat = ''tar.gz''\<rparr> = Inr False"
    by (simp add: IsPlatformUsingSystemD_def t knownVersions_def)
  have c: "IsPlatformUsingSystemD knownVersions
      \<lparr>Region = ''us-east-1'', Platform = ''windows'', PlatformVersion = ''10'',
       InstallerName = ''windows'', Arch = ''amd64'', CompressFormat = ''zip''\<rparr> = Inr False"
    using IsPlatformUsingSystemD_spec [of knownVersions
      "\<lparr>Region = ''us-east-1'', Platform = ''windows'', PlatformVersion = ''10'',
       InstallerName = ''windows'', Arch = ''amd64'', CompressFormat = ''zip''\<rparr>"]
    by simp
  from a b c show ?thesis by simp
qed

subsection \<open>Fields\<close>

lemma find_HasPrefix:
  "find (HasPrefix s) ws = Some w \<Longrightarrow> w \<in> set ws \<and> HasPrefix s w"
  by (induction ws) (auto split: if_splits)

lemma whiteSpace_nonempty: "w \<in> set whiteSpace \<Longrightarrow> w \<noteq> []"
  by (auto simp: whiteSpace_def)

lemma spaceWidth_take:
  assumes "spaceWidth s > 0"
  shows "take (spaceWidth s) s \<in> set whiteSpace"
proof -
  from assms obtain w where w: "find (HasPrefix s) whiteSpace = Some w"
    by (auto simp: spaceWidth_def split: option.splits)
  from find_HasPrefix [OF w] have "w \<in> set whiteSpace" "take (length w) s = w"
    by (auto simp: HasPrefix_def)
  with w show ?thesis by (simp add: spaceWidth_def)
qed

lemma whiteSpace_prefix_free_all:
  "list_all (\<lambda>a. list_all (\<lambda>b. HasPrefix a b \<longrightarrow> a = b) whiteSpace) whiteSpace"
  by (simp add: whiteSpace_def HasPrefix_def)

lemma whiteSpace_prefix_free:
  "a \<in> set whiteSpace \<Longrightarrow> b \<in> set whiteSpace \<Longrightarrow> HasPrefix a b \<Longrightarrow> a = b"
  using whiteSpace_prefix_free_all by (simp add: list_all_iff)

lemma spaceWidth_append:
  assumes "w \<in> set whiteSpace"
  shows "spaceWidth (w @ rest) = length w"
proof -
  have "HasPrefix (w @ rest) w" by (simp add: HasPrefix_def)
  with assms have "find (HasPrefix (w @ rest)) whiteSpace \<noteq> None"
    by (auto simp: find_None_iff)
  then obtain v where v: "find (HasPrefix (w @ rest)) whiteSpace = Some v" by auto
  from find_HasPrefix [OF v] have vin: "v \<in> set whiteSpace" and "HasPrefix (w @ rest) v"
    by auto
  then obtain r where r: "w @ rest = v @ r" by (auto simp: HasPrefix_iff)
  then have "HasPrefix w v \<or> HasPrefix v w"
    by (auto simp: HasPrefix_iff append_eq_append_conv2)
  with assms vin have "v = w"
    using whiteSpace_prefix_free by blast
  with v show ?thesis by (simp add: spaceWidth_def)
qed

lemma blank_iff: "blank s \<longleftrightarrow> (\<exists>ws. set ws \<subseteq> set whiteSpace \<and> s = concat ws)"
proof
  show "blank s \<Longrightarrow> \<exists>ws. set ws \<subseteq> set whiteSpace \<and> s = concat ws"
  proof (induction s rule: blank.induct)
    case (1 s)
    show ?case
    proof (cases "s = []")
      case True
      then show ?thesis by (intro exI [of _ "[]"]) simp
    next
      case False
      from "1.prems" False have pos: "spaceWidth s > 0"
        by (subst (asm) blank.simps) (simp split: if_splits)
      from "1.prems" False pos have rest: "blank (drop (spaceWidth s) s)"
        by (subst (asm) blank.simps) simp
      from "1.IH" [OF False pos rest] obtain ws where
        ws: "set ws \<subseteq> set whiteSpace" "drop (spaceWidth s) s = concat ws" by auto
      have "s = concat (take (spaceWidth s) s # ws)"
        using ws(2) by (simp flip: ws(2))
      with ws(1) spaceWidth_take [OF pos] show ?thesis
        by (intro exI [of _ "take (spaceWidth s) s # ws"]) simp
    qed
  qed
next
  assume "\<exists>ws. set ws \<subseteq> set whiteSpace \<and> s = concat ws"
  then obtain ws where "set ws \<subseteq> set whiteSpace" "s = concat ws" by auto
  then show "blank s"
  proof (induction ws arbitrary: s)
    case Nil
    then show ?case by (subst blank.simps) simp
  next
    case (Cons w ws)
    then have w: "w \<in> set whiteSpace" and b: "blank (concat ws)" by auto
    from spaceWidth_append [OF w] whiteSpace_nonempty [OF w]
    have "spaceWidth (w @ concat ws) > 0" "drop (spaceWidth (w @ concat ws)) (w @ concat ws) = concat ws"
      by auto
    with b Cons.prems(2) show ?case by (subst blank.simps) simp
  qed
qed

lemma fieldsFrom_empty: "fieldsFrom cur s = [] \<longleftrightarrow> cur = [] \<and> blank s"
proof (induction cur s rule: fieldsFrom.induct)
  case (1 cur s)
  show ?case
  proof (cases "s = []")
    case True
    then show ?thesis
      by (subst fieldsFrom.simps, subst blank.simps) simp
  next
    case False
    show ?thesis
    proof (cases "spaceWidth s > 0")
      case True
      with False "1.IH"(1) show ?thesis
        by (subst fieldsFrom.simps, subst blank.simps) auto
    next
      case nospace: False
      with False "1.IH"(2) show ?thesis
        by (subst fieldsFrom.simps, subst blank.simps) auto
    qed
  qed
qed

lemma Fields_empty: "Fields s = [] \<longleftrightarrow> blank s"
  by (simp add: Fields_def fieldsFrom_empty)

lemma Fields_blanks: "Fields [CHR 0x20, CHR 0x09, CHR 0xC2, CHR 0xA0] = []"
proof -
  have "set [[CHR 0x20], [CHR 0x09], [CHR 0xC2, CHR 0xA0]] \<subseteq> set whiteSpace"
    by (simp add: whiteSpace_def)
  then have "blank (concat [[CHR 0x20], [CHR 0x09], [CHR 0xC2, CHR 0xA0]])"
    unfolding blank_iff by blast
  then show ?thesis by (simp add: Fields_empty)
qed

lemma Fields_example: "Fields ''updater  -update'' = [''updater'', ''-update'']"
  by (simp add: Fields_def fieldsFrom.simps spaceWidth_def whiteSpace_def HasPrefix_def)

lemma Fields_sleep: "Fields ''sleep 60'' = [''sleep'', ''60'']"
  by (simp add: Fields_def fieldsFrom.simps spaceWidth_def whiteSpace_def HasPrefix_def)

lemma Fields_updater: "Fields ''updater -update'' = [''updater'', ''-update'']"
  by (simp add: Fields_def fieldsFrom.simps spaceWidth_def whiteSpace_def HasPrefix_def)

subsection \<open>ExeCommand\<close>

text \<open>
  C9. In detached mode (\<open>isAsync\<close> true) \<open>ExeCommand\<close> panics exactly when the command
  string holds no character other than white space, that is when it is a sequence of
  white space runes (the empty string included): then \<open>strings.Fields\<close> returns no field
  and \<open>parts[0]\<close> is out of range; nothing has been started and no error is returned.
  When the command string holds at least one field, the call returns.
\<close>

theorem ExeCommand_detached_panic:
  "(fst (ExeCommand sys cmd workingDir updaterRoot stdOut stdErr True w) = Panic \<longleftrightarrow>
      (\<exists>ws. set ws \<subseteq> set whiteSpace \<and> cmd = concat ws))
   \<and> (Fields cmd = [] \<longleftrightarrow> (\<exists>ws. set ws \<subseteq> set whiteSpace \<and> cmd = concat ws))
   \<and> (Fields cmd = [] \<longrightarrow>
        ExeCommand sys cmd workingDir updaterRoot stdOut stdErr True w = (Panic, w))
   \<and> (Fields cmd \<noteq> [] \<longrightarrow>
        (\<exists>err. fst (ExeCommand sys cmd workingDir updaterRoot stdOut stdErr True w) = Return err))"
proof -
  have f: "Fields cmd = [] \<longleftrightarrow> (\<exists>ws. set ws \<subseteq> set whiteSpace \<and> cmd = concat ws)"
    by (simp add: Fields_empty blank_iff)
  have p: "ExeCommand sys cmd workingDir updaterRoot stdOut stdErr True w = (Panic, w)"
    if "Fields cmd = []"
    using that by (simp add: ExeCommand_def)
  have r: "\<exists>err. fst (ExeCommand sys cmd workingDir updaterRoot stdOut stdErr True w) = Return err"
    if "Fields cmd \<noteq> []"
    using that by (auto simp: ExeCommand_def Let_def split: list.splits option.splits)
  have "fst (ExeCommand sys cmd workingDir updaterRoot stdOut stdErr True w) = Panic \<longleftrightarrow>
      Fields cmd = []"
    using p r by (cases "Fields cmd = []") auto
  with f p r show ?thesis by blast
qed

theorem ExeCommand_detached_panic_witness:
  "ExeCommand plainSystem [CHR 0x20, CHR 0x09, CHR 0xC2, CHR 0xA0] ''/tmp'' ''/opt/updater'' [] [] True
      initialWorld = (Panic, initialWorld)
   \<and> fst (ExeCommand plainSystem ''updater  -update'' ''/tmp'' ''/opt/updater'' [] [] True
      initialWorld) = Return None"
  using ExeCommand_detached_panic [of plainSystem "[CHR 0x20, CHR 0x09, CHR 0xC2, CHR 0xA0]"
      "''/tmp''" "''/opt/updater''" "[]" "[]" initialWorld]
    ExeCommand_detached_panic [of plainSystem "''updater  -update''"
      "''/tmp''" "''/opt/updater''" "[]" "[]" initialWorld]
  by (simp add: Fields_blanks Fields_example ExeCommand_def plainSystem_def)

text \<open>
  C3. In supervised mode (\<open>isAsync\<close> false), let the output files be open, the child
  be started and \<open>Wait\<close> return an exit error with exit status \<open>status\<close>. When the
  status is -1 and the timer has fired (\<open>timer.Stop()\<close> returns false), the error that
  \<open>ExeCommand\<close> returns carries \<open>CommandStoppedPreemptivelyExitCode\<close>. When the timer has
  not fired, or the status is not -1, it carries the status as it is.
\<close>

theorem ExeCommand_exit_code:
  assumes "setPlatformSpecificCommand sys (Fields cmd) = t # ts"
    and "setExeOutErr sys updaterRoot stdOut stdErr w = ((Some out, Some err, None), w1)"
    and "cmdStart sys ((execCommand t ts)\<lparr>Dir := workingDir, Stdout := Some out, Stderr := Some err\<rparr>) = None"
    and "cmdWait sys ((execCommand t ts)\<lparr>Dir := workingDir, Stdout := Some out, Stderr := Some err\<rparr>)
           = Some (ExitError (Some status) msg)"
  shows "(status = - 1 \<and> \<not> timerStop sys \<longrightarrow>
            fst (ExeCommand sys cmd workingDir updaterRoot stdOut stdErr False w) =
              Return (Some (CommandFailure (CommandStoppedPreemptivelyExitCode sys) msg)))
       \<and> (status \<noteq> - 1 \<or> timerStop sys \<longrightarrow>
            fst (ExeCommand sys cmd workingDir updaterRoot stdOut stdErr False w) =
              Return (Some (CommandFailure status msg)))"
  using assms by (simp add: ExeCommand_def waitForExit_def Let_def)

theorem ExeCommand_exit_code_witness:
  "fst (ExeCommand killedSystem ''sleep 60'' ''/tmp'' ''/opt/updater'' [] [] False initialWorld) =
      Return (Some (CommandFailure 137 ''signal: killed''))
   \<and> fst (ExeCommand signalledSystem ''sleep 60'' ''/tmp'' ''/opt/updater'' [] [] False initialWorld) =
      Return (Some (CommandFailure (- 1) ''signal: killed''))"
proof -
  have ko: "setExeOutErr killedSystem ''/opt/updater'' [] [] initialWorld =
      ((Some 3, Some 4, None), snd (setExeOutErr killedSystem ''/opt/updater'' [] [] initialWorld))"
    by (simp add: setExeOutErr_def os_OpenFile_def killedSystem_def plainSystem_def
        initialWorld_def Let_def)
  have so: "setExeOutErr signalledSystem ''/opt/updater'' [] [] initialWorld =
      ((Some 3, Some 4, None), snd (setExeOutErr signalledSystem ''/opt/updater'' [] [] initialWorld))"
    by (simp add: setExeOutErr_def os_OpenFile_def signalledSystem_def plainSystem_def
        initialWorld_def Let_def)
  have k: "fst (ExeCommand killedSystem ''sleep 60'' ''/tmp'' ''/opt/updater'' [] [] False initialWorld) =
      Return (Some (CommandFailure 137 ''signal: killed''))"
    using ExeCommand_exit_code [where sys = killedSystem and cmd = "''sleep 60''"
        and t = "''sleep''" and ts = "[''60'']" and workingDir = "''/tmp''"
        and status = "- 1" and msg = "''signal: killed''", OF _ ko]
    by (simp add: killedSystem_def plainSystem_def Fields_sleep)
  have s: "fst (ExeCommand signalledSystem ''sleep 60'' ''/tmp'' ''/opt/updater'' [] [] False initialWorld) =
      Return (Some (CommandFailure (- 1) ''signal: killed''))"
    using ExeCommand_exit_code [where sys = signalledSystem and cmd = "''sleep 60''"
        and t = "''sleep''" and ts = "[''60'']" and workingDir = "''/tmp''"
        and status = "- 1" and msg = "''signal: killed''", OF _ so]
    by (simp add: signalledSystem_def plainSystem_def Fields_sleep)
  from k s show ?thesis by simp
qed

text \<open>
  The deferred closes do their work on every other path: starting from a world whose
  descriptors are all below the next free one, a call that does not end with the stdout
  file open and the stderr file refused leaves the open files as they were.
\<close>

lemma filter_fresh:
  assumes "\<forall>(h, n) \<in> set files. h < (k::nat)"
  shows "filter (\<lambda>(h, n). h \<noteq> k) files = files"
  using assms by (induction files) auto

lemma filter_fresh_Suc:
  assumes "\<forall>(h, n) \<in> set files. h < (k::nat)"
  shows "filter (\<lambda>(h, n). h \<noteq> Suc k) files = files"
  using assms by (induction files) auto

lemma ExeCommand_closes_files:
  assumes wf: "\<forall>(h, n) \<in> set (openFiles w). h < nextFd w"
    and noleak: "\<forall>out e w1. setExeOutErr sys root stdOut stdErr w \<noteq> ((Some out, None, Some e), w1)"
  shows "openFiles (snd (ExeCommand sys cmd workingDir root stdOut stdErr isAsync w)) = openFiles w"
proof (cases isAsync)
  case True
  then show ?thesis
    by (auto simp: ExeCommand_def Let_def split: list.splits option.splits)
next
  case False
  show ?thesis
  proof (cases "setPlatformSpecificCommand sys (Fields cmd)")
    case Nil
    with False show ?thesis by (simp add: ExeCommand_def)
  next
    case (Cons t ts)
    from setExeOutErr_cases [of sys root stdOut stdErr w] noleak
    consider e where "setExeOutErr sys root stdOut stdErr w = ((None, None, Some e), w)"
      | "setExeOutErr sys root stdOut stdErr w =
          ((Some (nextFd w), Some (Suc (nextFd w)), None),
           w\<lparr>openFiles := openFiles w @
                 [(nextFd w, UpdateStandOutPath sys root stdOut),
                  (Suc (nextFd w), UpdateStandOutPath sys root stdErr)],
             nextFd := Suc (Suc (nextFd w))\<rparr>)"
      by blast
    then show ?thesis
    proof cases
      case 1
      with False Cons show ?thesis by (simp add: ExeCommand_def)
    next
      case 2
      with False Cons show ?thesis
        by (simp add: ExeCommand_def Let_def filter_fresh [OF wf] filter_fresh_Suc [OF wf]
            split: option.splits)
    qed
  qed
qed

text \<open>
  C7. The specification says that whenever \<open>ExeCommand\<close> returns in supervised mode,
  no file it opened is still open. The code differs: on a host where the stderr file cannot be opened (its path is a
  directory), \<open>setExeOutErr\<close> has opened the stdout file before, and \<open>ExeCommand\<close>
  returns the error before it registers the deferred closes: the stdout file, descriptor
  3, is still open when the call has returned.
\<close>

theorem ExeCommand_leaves_stdout_open:
  "ExeCommand blockedSystem ''updater -update'' ''/tmp'' ''/opt/updater'' [] ''errors'' False
      initialWorld =
     (Return (Some (OSError ''open /opt/updater/output/errors: is a directory'')),
      \<lparr>openFiles = [(3, ''/opt/updater/output/stdout'')], nextFd = 4, started = []\<rparr>)"
  by (simp add: ExeCommand_def Fields_updater setExeOutErr_def os_OpenFile_def blockedSystem_def
      plainSystem_def initialWorld_def UpdateStandOutPath_def UpdateOutputDirectory_def
      DefaultOutputFolder_def DefaultStandOut_def)

end
